theory Spec2Isabelle
  imports Main "HOL-Library.DAList" "HOL-Library.Char_ord" "HOL-Library.List_Lexorder"
begin

section \<open>Strings\<close>

text \<open>
  A Python \<open>str\<close> is modelled as a \<open>string\<close> whose characters are the code points
  below 256 (ASCII and Latin-1), which covers every literal of \<open>core.py\<close> that
  reaches a record, a file or an exception. \<open>str.strip\<close>, \<open>str.lower\<close> and
  \<open>str.splitlines\<close> are Python's, restricted to that range.
\<close>

definition es_espacio :: "char \<Rightarrow> bool" where
  \<comment> \<open>\<open>str.isspace\<close>: TAB, LF, VT, FF, CR, FS, GS, RS, US, SPACE, NEL, NBSP.\<close>
  "es_espacio c = (let n = (of_char c :: nat) in
     (9 \<le> n \<and> n \<le> 13) \<or> (28 \<le> n \<and> n \<le> 32) \<or> n = 133 \<or> n = 160)"

definition strip :: "string \<Rightarrow> string" where
  "strip s = rev (dropWhile es_espacio (rev (dropWhile es_espacio s)))"

definition es_mayuscula :: "char \<Rightarrow> bool" where
  \<comment> \<open>The code points below 256 that \<open>str.lower\<close> changes: A-Z and the Latin-1
      capitals 0xC0-0xDE without the multiplication sign 0xD7.\<close>
  "es_mayuscula c = (let n = (of_char c :: nat) in
     (65 \<le> n \<and> n \<le> 90) \<or> (192 \<le> n \<and> n \<le> 222 \<and> n \<noteq> 215))"

fun lower_char :: "char \<Rightarrow> char" where
  \<comment> \<open>The lower-case letter is 32 code points above its capital: bit 5 is set.\<close>
  "lower_char (Char b0 b1 b2 b3 b4 b5 b6 b7) =
     (if es_mayuscula (Char b0 b1 b2 b3 b4 b5 b6 b7) then Char b0 b1 b2 b3 b4 True b6 b7
      else Char b0 b1 b2 b3 b4 b5 b6 b7)"

definition lower :: "string \<Rightarrow> string" where
  "lower s = map lower_char s"

definition startswith :: "string \<Rightarrow> string \<Rightarrow> bool" where
  "startswith prefijo s = (take (length prefijo) s = prefijo)"

definition es_salto :: "char \<Rightarrow> bool" where
  \<comment> \<open>The line boundaries of \<open>str.splitlines\<close>: LF, VT, FF, CR, FS, GS, RS, NEL.\<close>
  "es_salto c = (let n = (of_char c :: nat) in
     (10 \<le> n \<and> n \<le> 13) \<or> (28 \<le> n \<and> n \<le> 30) \<or> n = 133)"

fun splitlines_desde :: "string \<Rightarrow> string \<Rightarrow> string list" where
  \<comment> \<open>First argument: the line being read, reversed. CR LF is one boundary; a
      boundary at the very end opens no further line.\<close>
  "splitlines_desde linea [] = (if linea = [] then [] else [rev linea])"
| "splitlines_desde linea [c] =
     (if es_salto c then [rev linea] else [rev (c # linea)])"
| "splitlines_desde linea (c # d # cs) =
     (if c = CHR 0x0D \<and> d = CHR 0x0A then rev linea # splitlines_desde [] cs
      else if es_salto c then rev linea # splitlines_desde [] (d # cs)
      else splitlines_desde (c # linea) (d # cs))"

definition splitlines :: "string \<Rightarrow> string list" where
  "splitlines s = splitlines_desde [] s"

definition despues_de_dos_puntos :: "string \<Rightarrow> string" where
  \<comment> \<open>\<open>linea.split(":", 1)[1]\<close> for a line that holds a colon: what follows the
      first one.\<close>
  "despues_de_dos_puntos linea = drop 1 (dropWhile (\<lambda>c. c \<noteq> CHR '':'') linea)"

definition reemplazar_guiones :: "string \<Rightarrow> string" where
  \<comment> \<open>\<open>nombre.replace("-", "_")\<close>\<close>
  "reemplazar_guiones s = map (\<lambda>c. if c = CHR ''-'' then CHR ''_'' else c) s"

definition entre_comillas :: "string \<Rightarrow> string" where
  \<comment> \<open>\<open>'{s}'\<close> inside an f-string.\<close>
  "entre_comillas s = [CHR 0x27] @ s @ [CHR 0x27]"


section \<open>Enums and dataclasses\<close>

datatype ModoOperacion = SOLO_VER | INSTALAR | INSTALAR_Y_ACTUALIZAR

fun valor_modo :: "ModoOperacion \<Rightarrow> string" where
  "valor_modo SOLO_VER = ''solo_ver''"
| "valor_modo INSTALAR = ''instalar''"
| "valor_modo INSTALAR_Y_ACTUALIZAR = ''instalar_y_actualizar''"

datatype EstadoLibreria = NO_INSTALADA | INSTALADA | ACTUALIZADA | ERROR

fun valor_estado :: "EstadoLibreria \<Rightarrow> string" where
  "valor_estado NO_INSTALADA = ''no_instalada''"
| "valor_estado INSTALADA = ''instalada''"
| "valor_estado ACTUALIZADA = ''actualizada''"
| "valor_estado ERROR = ''error''"

record ConfigModo =
  solo_verificar :: bool
  actualizar :: bool
  descripcion :: string

record InfoLibreria =
  libreria :: string
  estado :: EstadoLibreria
  version_instalada :: "string option"
  ultima_version :: "string option"
  mensaje :: "string option"
  timestamp :: string

fun campo_opcional :: "string \<Rightarrow> string option \<Rightarrow> (string \<times> string) list" where
  \<comment> \<open>\<open>if self.campo: resultado['campo'] = self.campo\<close>: Python's truth value of
      an \<open>Optional[str]\<close>, false for \<open>None\<close> and for \<open>""\<close>.\<close>
  "campo_opcional clave None = []"
| "campo_opcional clave (Some s) = (if s \<noteq> [] then [(clave, s)] else [])"

definition to_dict :: "InfoLibreria \<Rightarrow> (string \<times> string) list" where
  "to_dict i =
     [(''libreria'', libreria i), (''estado'', valor_estado (estado i)),
      (''timestamp'', timestamp i)]
     @ campo_opcional ''version_instalada'' (version_instalada i)
     @ campo_opcional ''ultima_version'' (ultima_version i)
     @ campo_opcional ''mensaje'' (mensaje i)"

definition CONFIG_MODOS :: "ModoOperacion \<Rightarrow> ConfigModo" where
  "CONFIG_MODOS m = (case m of
       SOLO_VER \<Rightarrow> \<lparr>solo_verificar = True, actualizar = False,
         descripcion = ''Solo verifica si la librer'' @ [CHR 0xED] @ ''a est'' @ [CHR 0xE1]
           @ '' instalada y guarda info en JSON.''\<rparr>
     | INSTALAR \<Rightarrow> \<lparr>solo_verificar = False, actualizar = False,
         descripcion = ''Instala la librer'' @ [CHR 0xED] @ ''a si no est'' @ [CHR 0xE1]
           @ '' instalada, no actualiza.''\<rparr>
     | INSTALAR_Y_ACTUALIZAR \<Rightarrow> \<lparr>solo_verificar = False, actualizar = True,
         descripcion = ''Instala la librer'' @ [CHR 0xED] @ ''a si no est'' @ [CHR 0xE1]
           @ '', y actualiza si ya existe.''\<rparr>)"


section \<open>The platform\<close>

text \<open>
  \<open>core.py\<close> is glue over the interpreter's package metadata, the \<open>pip\<close>
  subprocess, the package index and one JSON file. Each of them is part of an explicit
  world: \<open>mundo\<close> is what a run can read and change, \<open>sistema\<close> is how the library
  calls answer.
  \<^item> \<open>importlib.metadata.version(n)\<close> is \<open>metadatos\<close>: \<open>None\<close> is
    \<open>PackageNotFoundError\<close>.
  \<^item> \<open>importlib.metadata.distributions()\<close> is \<open>distribuciones\<close>: the name and the
    version of each distribution, in the order of discovery.
  \<^item> \<open>subprocess.check_output\<close> (used for \<open>pip show\<close> only, a query that leaves
    the environment as it is) answers with the standard output, \<open>None\<close> being
    \<open>CalledProcessError\<close>; \<open>subprocess.check_call\<close> (used for \<open>pip install\<close>)
    answers with the exception it raises, if any, and the environment it leaves.
  \<^item> the index lookup answers with \<open>data["info"]["version"]\<close>, a \<open>str\<close> as the
    annotation of \<open>obtener_ultima_version\<close> says, or with \<open>None\<close> when anything
    inside the \<open>try\<close> block raises.
  \<^item> a file is absent, or not parseable (\<open>json.JSONDecodeError\<close>), or holds a JSON
    object, the \<open>Dict\<close> that \<open>GestorJSON.leer\<close> declares; reading and writing
    the file system do not fail.
  \<^item> every subprocess started and every URL requested is logged, in order.
  \<^item> \<open>datetime.utcnow().isoformat()\<close> is \<open>ahora\<close>; console output is not part of
    the model.
\<close>

datatype excepcion =
    ValueError string
  | RuntimeError string
  | CalledProcessError string
  | OtraExcepcion string

fun str_excepcion :: "excepcion \<Rightarrow> string" where
  \<comment> \<open>\<open>str(e)\<close>: every exception carries its message.\<close>
  "str_excepcion (ValueError m) = m"
| "str_excepcion (RuntimeError m) = m"
| "str_excepcion (CalledProcessError m) = m"
| "str_excepcion (OtraExcepcion m) = m"

datatype json =
    JNull
  | JBool bool
  | JInt int
  | JFloat string
  | JStr string
  | JArr "json list"
  | JObj "(string \<times> json) list"

definition json_de_dict :: "(string \<times> string) list \<Rightarrow> json" where
  \<comment> \<open>A \<open>dict\<close> from \<open>str\<close> to \<open>str\<close> as \<open>json.dumps\<close> writes it.\<close>
  "json_de_dict d = JObj (map (\<lambda>(k, v). (k, JStr v)) d)"

datatype archivo = Ausente | Ilegible | Objeto "(string, json) alist"

record entorno =
  metadatos :: "string \<Rightarrow> string option"
  distribuciones :: "(string \<times> string) list"

record mundo =
  instalado :: entorno
  archivos :: "string \<Rightarrow> archivo"
  comandos :: "string list list"
  peticiones :: "string list"
  ahora :: string

record sistema =
  ejecutable :: string
  check_output :: "string list \<Rightarrow> entorno \<Rightarrow> string option"
  check_call :: "string list \<Rightarrow> entorno \<Rightarrow> excepcion option \<times> entorno"
  consultar_indice :: "string \<Rightarrow> string option"

definition nueva_info ::
  "mundo \<Rightarrow> string \<Rightarrow> EstadoLibreria \<Rightarrow> string option \<Rightarrow> string option \<Rightarrow> string option
     \<Rightarrow> InfoLibreria" where
  \<comment> \<open>The constructor with \<open>__post_init__\<close>: no caller passes a timestamp.\<close>
  "nueva_info w nombre e vi uv m =
     \<lparr>libreria = nombre, estado = e, version_instalada = vi, ultima_version = uv,
      mensaje = m, timestamp = ahora w\<rparr>"


section \<open>Service classes\<close>

definition desconocida :: string where
  "desconocida = ''desconocida''"

definition subprocess_check_output :: "sistema \<Rightarrow> string list \<Rightarrow> mundo \<Rightarrow> string option \<times> mundo" where
  "subprocess_check_output sis argv w =
     (check_output sis argv (instalado w), w\<lparr>comandos := comandos w @ [argv]\<rparr>)"

definition subprocess_check_call :: "sistema \<Rightarrow> string list \<Rightarrow> mundo \<Rightarrow> (excepcion + unit) \<times> mundo" where
  "subprocess_check_call sis argv w =
     (let (fallo, env) = check_call sis argv (instalado w);
          w' = w\<lparr>instalado := env, comandos := comandos w @ [argv]\<rparr>
      in case fallo of
           Some e \<Rightarrow> (Inl e, w')
         | None \<Rightarrow> (Inr (), w'))"

definition obtener_version_instalada :: "sistema \<Rightarrow> string \<Rightarrow> mundo \<Rightarrow> string \<times> mundo" where
  "obtener_version_instalada sis nombre_libreria w =
     (case subprocess_check_output sis
             [ejecutable sis, ''-m'', ''pip'', ''show'', nombre_libreria] w of
        (None, w') \<Rightarrow> (desconocida, w')
      | (Some resultado, w') \<Rightarrow>
          (case find (startswith ''Version:'') (splitlines resultado) of
             Some linea \<Rightarrow> (strip (despues_de_dos_puntos linea), w')
           | None \<Rightarrow> (desconocida, w')))"

definition obtener_ultima_version :: "sistema \<Rightarrow> string \<Rightarrow> mundo \<Rightarrow> string \<times> mundo" where
  "obtener_ultima_version sis nombre_libreria w =
     (let url = ''https://pypi.org/pypi/'' @ nombre_libreria @ ''/json'';
          w' = w\<lparr>peticiones := peticiones w @ [url]\<rparr>
      in case consultar_indice sis url of
           Some v \<Rightarrow> (v, w')
         | None \<Rightarrow> (desconocida, w'))"

record GestorJSON =
  ruta :: string

definition leer :: "GestorJSON \<Rightarrow> mundo \<Rightarrow> (string, json) alist" where
  "leer g w = (case archivos w (ruta g) of
       Ausente \<Rightarrow> DAList.empty
     | Ilegible \<Rightarrow> DAList.empty
     | Objeto d \<Rightarrow> d)"

definition guardar :: "GestorJSON \<Rightarrow> (string, json) alist \<Rightarrow> mundo \<Rightarrow> mundo" where
  "guardar g contenido w = w\<lparr>archivos := (archivos w)(ruta g := Objeto contenido)\<rparr>"

definition actualizar_libreria :: "GestorJSON \<Rightarrow> InfoLibreria \<Rightarrow> mundo \<Rightarrow> mundo" where
  "actualizar_libreria g info w =
     (let contenido = leer g w;
          contenido = DAList.update (libreria info) (json_de_dict (to_dict info)) contenido
      in guardar g contenido w)"

definition esta_instalada :: "string \<Rightarrow> mundo \<Rightarrow> bool" where
  "esta_instalada nombre_libreria w =
     (case metadatos (instalado w) nombre_libreria of
        Some _ \<Rightarrow> True
      | None \<Rightarrow>
          (case metadatos (instalado w) (reemplazar_guiones nombre_libreria) of
             Some _ \<Rightarrow> True
           | None \<Rightarrow> False))"

definition instalar :: "sistema \<Rightarrow> string \<Rightarrow> mundo \<Rightarrow> (excepcion + unit) \<times> mundo" where
  "instalar sis nombre_libreria w =
     subprocess_check_call sis [ejecutable sis, ''-m'', ''pip'', ''install'', nombre_libreria] w"

definition pip_actualizar :: "sistema \<Rightarrow> string \<Rightarrow> mundo \<Rightarrow> (excepcion + unit) \<times> mundo" where
  \<comment> \<open>\<open>InstaladorPip.actualizar\<close>\<close>
  "pip_actualizar sis nombre_libreria w =
     subprocess_check_call sis
       [ejecutable sis, ''-m'', ''pip'', ''install'', ''--upgrade'', nombre_libreria] w"


section \<open>VerificadorLibrerias\<close>

record VerificadorLibrerias =
  gestor_json :: GestorJSON
  archivo_json :: string

definition nuevo_verificador :: "string \<Rightarrow> VerificadorLibrerias" where
  \<comment> \<open>\<open>VerificadorLibrerias.__init__\<close>\<close>
  "nuevo_verificador archivo = \<lparr>gestor_json = \<lparr>ruta = archivo\<rparr>, archivo_json = archivo\<rparr>"

definition mensaje_no_instalada :: "string \<Rightarrow> string" where
  "mensaje_no_instalada nombre =
     ''La librer'' @ [CHR 0xED] @ ''a '' @ entre_comillas nombre @ '' no est'' @ [CHR 0xE1]
       @ '' instalada.''"

definition persistir :: "VerificadorLibrerias \<Rightarrow> bool \<Rightarrow> InfoLibreria \<Rightarrow> mundo \<Rightarrow> mundo" where
  \<comment> \<open>\<open>if guardar_json: self.gestor_json.actualizar_libreria(info)\<close>\<close>
  "persistir v guardar_json info w =
     (if guardar_json then actualizar_libreria (gestor_json v) info w else w)"

definition verificar_solo ::
  "sistema \<Rightarrow> VerificadorLibrerias \<Rightarrow> string \<Rightarrow> bool \<Rightarrow> bool \<Rightarrow> mundo
     \<Rightarrow> (bool \<times> InfoLibreria) \<times> mundo" where
  "verificar_solo sis v nombre instalada guardar_json w =
     (if \<not> instalada then
        (let info = nueva_info w nombre NO_INSTALADA None None
                      (Some (mensaje_no_instalada nombre))
         in ((True, info), persistir v guardar_json info w))
      else
        (let (v_inst, w1) = obtener_version_instalada sis nombre w;
             (v_ult, w2) = obtener_ultima_version sis nombre w1;
             info = nueva_info w2 nombre INSTALADA (Some v_inst) (Some v_ult) None
         in ((True, info), persistir v guardar_json info w2)))"

definition verificar_e_instalar ::
  "sistema \<Rightarrow> VerificadorLibrerias \<Rightarrow> string \<Rightarrow> bool \<Rightarrow> bool \<Rightarrow> bool \<Rightarrow> mundo
     \<Rightarrow> (excepcion + bool \<times> InfoLibreria) \<times> mundo" where
  "verificar_e_instalar sis v nombre instalada act guardar_json w =
     (let (r, w1) =
            (if instalada then
               (if act then
                  (case pip_actualizar sis nombre w of
                     (Inl e, w') \<Rightarrow> (Inl e, w')
                   | (Inr _, w') \<Rightarrow> (Inr ACTUALIZADA, w'))
                else (Inr INSTALADA, w))
             else
               (case instalar sis nombre w of
                  (Inl e, w') \<Rightarrow> (Inl e, w')
                | (Inr _, w') \<Rightarrow> (Inr INSTALADA, w')))
      in case r of
           Inl e \<Rightarrow> (Inl e, w1)
         | Inr estado_final \<Rightarrow>
             (let (v_inst, w2) = obtener_version_instalada sis nombre w1;
                  (v_ult, w3) = obtener_ultima_version sis nombre w2;
                  info = nueva_info w3 nombre estado_final (Some v_inst) (Some v_ult) None
              in (Inr (True, info), persistir v guardar_json info w3)))"

definition manejar_error ::
  "VerificadorLibrerias \<Rightarrow> string \<Rightarrow> excepcion \<Rightarrow> bool \<Rightarrow> mundo
     \<Rightarrow> (bool \<times> InfoLibreria) \<times> mundo" where
  "manejar_error v nombre error guardar_json w =
     (let info = nueva_info w nombre ERROR None None (Some (str_excepcion error))
      in ((False, info), persistir v guardar_json info w))"

definition verificar ::
  "sistema \<Rightarrow> VerificadorLibrerias \<Rightarrow> string \<Rightarrow> ConfigModo \<Rightarrow> bool \<Rightarrow> mundo
     \<Rightarrow> (bool \<times> InfoLibreria) \<times> mundo" where
  "verificar sis v nombre_libreria modo guardar_json w =
     (let instalada = esta_instalada nombre_libreria w;
          (r, w1) =
            (if solo_verificar modo then
               (case verificar_solo sis v nombre_libreria instalada guardar_json w of
                  (res, w') \<Rightarrow> (Inr res, w'))
             else verificar_e_instalar sis v nombre_libreria instalada (actualizar modo)
                    guardar_json w)
      in case r of
           Inr res \<Rightarrow> (res, w1)
         | Inl e \<Rightarrow> manejar_error v nombre_libreria e guardar_json w1)"


section \<open>Validators and entry point\<close>

datatype valor = Cadena string | Booleano bool | Otro

definition validar_nombre_libreria :: "valor \<Rightarrow> excepcion + string" where
  "validar_nombre_libreria nombre =
     (case nombre of
        Cadena s \<Rightarrow>
          (if strip s = [] then
             Inl (ValueError (''Se debe proporcionar un nombre de librer'' @ [CHR 0xED]
                    @ ''a v'' @ [CHR 0xE1] @ ''lido.''))
           else Inr (strip s))
      | _ \<Rightarrow>
          Inl (ValueError (''Se debe proporcionar un nombre de librer'' @ [CHR 0xED]
                 @ ''a v'' @ [CHR 0xE1] @ ''lido.'')))"

definition parsear_bool :: "valor \<Rightarrow> excepcion + bool" where
  "parsear_bool valor =
     (case valor of
        Booleano b \<Rightarrow> Inr b
      | Otro \<Rightarrow>
          Inl (ValueError (''guardar_json debe ser exactamente '' @ entre_comillas ''si''
                 @ '' o '' @ entre_comillas ''no'' @ ''.''))
      | Cadena s \<Rightarrow>
          (let valor_normalizado = lower (strip s)
           in if valor_normalizado \<notin> set [''si'', ''no''] then
                Inl (ValueError (''Valor inv'' @ [CHR 0xE1] @ ''lido: '' @ entre_comillas s
                       @ ''. Debe ser exactamente '' @ entre_comillas ''si'' @ '' o ''
                       @ entre_comillas ''no'' @ ''.''))
              else Inr (valor_normalizado = ''si'')))"

definition modo_de_valor :: "string \<Rightarrow> ModoOperacion option" where
  \<comment> \<open>\<open>ModoOperacion(opcion)\<close>: the member with that value; \<open>None\<close> is its
      \<open>ValueError\<close>.\<close>
  "modo_de_valor opcion =
     find (\<lambda>m. valor_modo m = opcion) [SOLO_VER, INSTALAR, INSTALAR_Y_ACTUALIZAR]"

definition repr_lista :: "string list \<Rightarrow> string" where
  \<comment> \<open>The \<open>str\<close> of a list of strings that hold no quote and no escape.\<close>
  "repr_lista xs =
     ''['' @ concat (case map entre_comillas xs of [] \<Rightarrow> [] | y # ys \<Rightarrow> y # map ((@) '', '') ys)
       @ '']''"

definition obtener_modo :: "string \<Rightarrow> excepcion + ConfigModo" where
  "obtener_modo opcion =
     (case modo_de_valor opcion of
        Some modo_enum \<Rightarrow> Inr (CONFIG_MODOS modo_enum)
      | None \<Rightarrow>
          Inl (ValueError (''Opci'' @ [CHR 0xF3] @ ''n inv'' @ [CHR 0xE1] @ ''lida: ''
                 @ entre_comillas opcion @ ''. Debe ser una de: ''
                 @ repr_lista (map valor_modo [SOLO_VER, INSTALAR, INSTALAR_Y_ACTUALIZAR]))))"

definition texto_opcional :: "string option \<Rightarrow> string" where
  \<comment> \<open>An \<open>Optional[str]\<close> inside an f-string.\<close>
  "texto_opcional m = (case m of None \<Rightarrow> ''None'' | Some s \<Rightarrow> s)"

definition cuerpo_main ::
  "sistema \<Rightarrow> valor \<Rightarrow> string \<Rightarrow> valor \<Rightarrow> string \<Rightarrow> mundo \<Rightarrow> (excepcion + unit) \<times> mundo" where
  \<comment> \<open>The \<open>try\<close> block of \<open>main\<close>.\<close>
  "cuerpo_main sis libreria_a_verificar opcion guardar_json archivo w =
     (case validar_nombre_libreria libreria_a_verificar of
        Inl e \<Rightarrow> (Inl e, w)
      | Inr nombre_libreria \<Rightarrow>
          (case parsear_bool guardar_json of
             Inl e \<Rightarrow> (Inl e, w)
           | Inr guardar_json_bool \<Rightarrow>
               (case obtener_modo opcion of
                  Inl e \<Rightarrow> (Inl e, w)
                | Inr modo \<Rightarrow>
                    (case verificar sis (nuevo_verificador archivo) nombre_libreria modo
                            guardar_json_bool w of
                       ((exito, info), w') \<Rightarrow>
                         (if \<not> exito then
                            (Inl (RuntimeError (''No se pudo completar la operaci''
                                    @ [CHR 0xF3] @ ''n sobre '' @ entre_comillas nombre_libreria
                                    @ ''. Detalle: '' @ texto_opcional (mensaje info))), w')
                          else (Inr (), w'))))))"

definition main ::
  "sistema \<Rightarrow> valor \<Rightarrow> string \<Rightarrow> valor \<Rightarrow> string \<Rightarrow> mundo \<Rightarrow> (excepcion + unit) \<times> mundo" where
  "main sis libreria_a_verificar opcion guardar_json archivo w =
     (case cuerpo_main sis libreria_a_verificar opcion guardar_json archivo w of
        (Inl e, w') \<Rightarrow>
          (Inl (RuntimeError (''Fallo en la ejecuci'' @ [CHR 0xF3] @ ''n: '' @ str_excepcion e)),
           w')
      | (Inr u, w') \<Rightarrow> (Inr u, w'))"


section \<open>ListarLibrerias\<close>

record entrada =
  nombre :: string
  version :: string

record inventario =
  fecha_escaneo :: string
  total_librerias :: nat
  librerias :: "entrada list"

definition obtener_todas :: "mundo \<Rightarrow> entrada list" where
  \<comment> \<open>\<open>sorted\<close> is stable, as \<open>sort_key\<close> is.\<close>
  "obtener_todas w =
     map (\<lambda>dist. \<lparr>nombre = fst dist, version = snd dist\<rparr>)
       (sort_key (\<lambda>x. lower (fst x)) (distribuciones (instalado w)))"

definition json_de_entrada :: "entrada \<Rightarrow> json" where
  "json_de_entrada e = json_de_dict [(''nombre'', nombre e), (''version'', version e)]"

definition json_de_inventario :: "inventario \<Rightarrow> (string, json) alist" where
  \<comment> \<open>The \<open>dict\<close> \<open>datos\<close>, its keys in the order of the literal.\<close>
  "json_de_inventario d =
     DAList.update ''librerias'' (JArr (map json_de_entrada (librerias d)))
       (DAList.update ''total_librerias'' (JInt (int (total_librerias d)))
         (DAList.update ''fecha_escaneo'' (JStr (fecha_escaneo d)) DAList.empty))"

definition exportar_a_json :: "GestorJSON \<Rightarrow> string \<Rightarrow> mundo \<Rightarrow> GestorJSON \<times> mundo" where
  \<comment> \<open>The manager is returned with the path it has been given.\<close>
  "exportar_a_json g nombre_archivo w =
     (let datos = \<lparr>fecha_escaneo = ahora w, total_librerias = 0, librerias = obtener_todas w\<rparr>;
          datos = datos\<lparr>total_librerias := length (librerias datos)\<rparr>;
          g' = g\<lparr>ruta := nombre_archivo\<rparr>
      in (g', guardar g' (json_de_inventario datos) w))"


section \<open>Concrete worlds\<close>

text \<open>
  An environment with four distributions, an index that knows three packages, a
  \<open>pip\<close> that installs what the index knows and exits with status 1 otherwise, and
  a \<open>pip show\<close> that prints the name and the version of what is installed.
\<close>

definition entorno_ejemplo :: entorno where
  "entorno_ejemplo =
     \<lparr>metadatos = map_of [(''wheel'', ''0.45.1''), (''PyYAML'', ''6.0.2''),
                           (''yt_dlp'', ''2025.1.15''), (''attrs'', ''24.2.0'')],
      distribuciones = [(''wheel'', ''0.45.1''), (''PyYAML'', ''6.0.2''),
                        (''yt_dlp'', ''2025.1.15''), (''attrs'', ''24.2.0'')]\<rparr>"

definition indice_ejemplo :: "string \<Rightarrow> string option" where
  "indice_ejemplo url =
     map_of [(''https://pypi.org/pypi/wheel/json'', ''0.45.1''),
             (''https://pypi.org/pypi/requests/json'', ''2.32.3''),
             (''https://pypi.org/pypi/attrs/json'', ''25.1.0'')] url"

definition pip_show_ejemplo :: "string list \<Rightarrow> entorno \<Rightarrow> string option" where
  "pip_show_ejemplo argv env =
     (case metadatos env (last argv) of
        None \<Rightarrow> None
      | Some v \<Rightarrow>
          Some (''Name: '' @ last argv @ [CHR 0x0A] @ ''Version: '' @ v @ [CHR 0x0A]
                @ ''Summary: a package'' @ [CHR 0x0A]))"

definition pip_install_ejemplo :: "string list \<Rightarrow> entorno \<Rightarrow> excepcion option \<times> entorno" where
  "pip_install_ejemplo argv env =
     (case indice_ejemplo (''https://pypi.org/pypi/'' @ last argv @ ''/json'') of
        None \<Rightarrow> (Some (CalledProcessError ''Command returned non-zero exit status 1.''), env)
      | Some v \<Rightarrow>
          (None, env\<lparr>metadatos := (metadatos env)(last argv \<mapsto> v),
                      distribuciones := AList.update (last argv) v (distribuciones env)\<rparr>))"

definition sistema_ejemplo :: sistema where
  "sistema_ejemplo =
     \<lparr>ejecutable = ''/usr/bin/python3'', check_output = pip_show_ejemplo,
      check_call = pip_install_ejemplo, consultar_indice = indice_ejemplo\<rparr>"

definition sistema_version_vacia :: sistema where
  \<comment> \<open>A \<open>pip show\<close> whose \<open>Version:\<close> line holds nothing after the colon.\<close>
  "sistema_version_vacia =
     sistema_ejemplo\<lparr>check_output :=
       (\<lambda>argv env. Some (''Name: wheel'' @ [CHR 0x0A] @ ''Version:'' @ [CHR 0x0A]))\<rparr>"

definition sistema_sin_indice :: sistema where
  \<comment> \<open>The index cannot be reached: every lookup raises.\<close>
  "sistema_sin_indice = sistema_ejemplo\<lparr>consultar_indice := (\<lambda>url. None)\<rparr>"

definition mundo_ejemplo :: mundo where
  "mundo_ejemplo =
     \<lparr>instalado = entorno_ejemplo, archivos = (\<lambda>r. Ausente), comandos = [], peticiones = [],
      ahora = ''2026-01-01T00:00:00''\<rparr>"

definition archivo_ejemplo :: string where
  "archivo_ejemplo = ''librerias_verificadas.json''"


definition gestor_ejemplo :: GestorJSON where
  "gestor_ejemplo = \<lparr>ruta = archivo_ejemplo\<rparr>"

definition verificador_ejemplo :: VerificadorLibrerias where
  "verificador_ejemplo = nuevo_verificador archivo_ejemplo"

definition mundo_con_archivo :: mundo where
  \<comment> \<open>The JSON file already holds an entry for \<open>attrs\<close> and one for \<open>wheel\<close>.\<close>
  "mundo_con_archivo =
     mundo_ejemplo\<lparr>archivos := (\<lambda>r. Ausente)(archivo_ejemplo :=
       Objeto (DAList.update ''wheel'' (JObj [(''estado'', JStr ''no_instalada'')])
                (DAList.update ''attrs'' (JObj [(''estado'', JStr ''instalada'')])
                  DAList.empty)))\<rparr>"

section \<open>Facts about the platform model\<close>

lemmas ejemplo_defs =
  mundo_ejemplo_def entorno_ejemplo_def sistema_ejemplo_def sistema_version_vacia_def
  sistema_sin_indice_def pip_show_ejemplo_def pip_install_ejemplo_def indice_ejemplo_def
  archivo_ejemplo_def nuevo_verificador_def gestor_ejemplo_def verificador_ejemplo_def
  mundo_con_archivo_def

lemmas texto_defs =
  splitlines_def startswith_def es_salto_def strip_def despues_de_dos_puntos_def
  es_espacio_def lower_def es_mayuscula_def reemplazar_guiones_def

lemma leer_guardar: "leer g (guardar g c w) = c"
  by (simp add: leer_def guardar_def)




lemma persistir_marco [simp]:
  "instalado (persistir v g info w) = instalado w"
  "comandos (persistir v g info w) = comandos w"
  "peticiones (persistir v g info w) = peticiones w"
  "ahora (persistir v g info w) = ahora w"
  by (simp_all add: persistir_def actualizar_libreria_def guardar_def)



lemma obtener_version_instalada_mundo:
  "snd (obtener_version_instalada sis n w) =
     w\<lparr>comandos := comandos w @ [[ejecutable sis, ''-m'', ''pip'', ''show'', n]]\<rparr>"
  by (simp add: obtener_version_instalada_def subprocess_check_output_def
      split: option.splits)

lemma obtener_ultima_version_mundo:
  "snd (obtener_ultima_version sis n w) =
     w\<lparr>peticiones := peticiones w @ [''https://pypi.org/pypi/'' @ n @ ''/json'']\<rparr>"
  by (simp add: obtener_ultima_version_def Let_def split: option.splits)

lemma obtener_ultima_version_valor:
  "fst (obtener_ultima_version sis n w') = fst (obtener_ultima_version sis n w)"
  by (simp add: obtener_ultima_version_def Let_def split: option.splits)






section \<open>The outcomes of \<open>verificar\<close>\<close>

lemma verificar_solo_ver_ausente:
  assumes "solo_verificar modo" "\<not> esta_instalada n w"
  shows "verificar sis v n modo g w =
     ((True, nueva_info w n NO_INSTALADA None None (Some (mensaje_no_instalada n))),
      persistir v g (nueva_info w n NO_INSTALADA None None (Some (mensaje_no_instalada n))) w)"
  using assms by (simp add: verificar_def verificar_solo_def Let_def)

lemma verificar_consulta:
  assumes "solo_verificar modo \<or> \<not> actualizar modo" "esta_instalada n w"
  shows "verificar sis v n modo g w =
     (let info = nueva_info w n INSTALADA (Some (fst (obtener_version_instalada sis n w)))
                   (Some (fst (obtener_ultima_version sis n w))) None
      in ((True, info),
          persistir v g info
            (w\<lparr>comandos := comandos w @ [[ejecutable sis, ''-m'', ''pip'', ''show'', n]],
               peticiones := peticiones w @ [''https://pypi.org/pypi/'' @ n @ ''/json'']\<rparr>)))"
  using assms obtener_ultima_version_valor [of sis n "snd (obtener_version_instalada sis n w)" w]
  by (cases "solo_verificar modo")
    (simp_all add: verificar_def verificar_solo_def verificar_e_instalar_def Let_def
      case_prod_beta obtener_version_instalada_mundo obtener_ultima_version_mundo
      nueva_info_def)

lemma verificar_pip_fallo:
  assumes "\<not> solo_verificar modo"
    and "argv = (if esta_instalada n w
                 then [ejecutable sis, ''-m'', ''pip'', ''install'', ''--upgrade'', n]
                 else [ejecutable sis, ''-m'', ''pip'', ''install'', n])"
    and "esta_instalada n w \<longrightarrow> actualizar modo"
    and "check_call sis argv (instalado w) = (Some e, env)"
  shows "verificar sis v n modo g w =
     manejar_error v n e g (w\<lparr>instalado := env, comandos := comandos w @ [argv]\<rparr>)"
  using assms
  by (simp add: verificar_def verificar_e_instalar_def instalar_def pip_actualizar_def
      subprocess_check_call_def Let_def split: if_splits)

lemma verificar_pip_exito:
  assumes "\<not> solo_verificar modo"
    and "argv = (if esta_instalada n w
                 then [ejecutable sis, ''-m'', ''pip'', ''install'', ''--upgrade'', n]
                 else [ejecutable sis, ''-m'', ''pip'', ''install'', n])"
    and "esta_instalada n w \<longrightarrow> actualizar modo"
    and "check_call sis argv (instalado w) = (None, env)"
  shows "verificar sis v n modo g w =
     (let w1 = w\<lparr>instalado := env, comandos := comandos w @ [argv]\<rparr>;
          info = nueva_info w n (if esta_instalada n w then ACTUALIZADA else INSTALADA)
                   (Some (fst (obtener_version_instalada sis n w1)))
                   (Some (fst (obtener_ultima_version sis n w))) None
      in ((True, info),
          persistir v g info
            (w1\<lparr>comandos := comandos w1 @ [[ejecutable sis, ''-m'', ''pip'', ''show'', n]],
                peticiones := peticiones w @ [''https://pypi.org/pypi/'' @ n @ ''/json'']\<rparr>)))"
proof -
  let ?w1 = "w\<lparr>instalado := env, comandos := comandos w @ [argv]\<rparr>"
  have u: "fst (obtener_ultima_version sis n (snd (obtener_version_instalada sis n ?w1)))
            = fst (obtener_ultima_version sis n w)"
    by (rule obtener_ultima_version_valor)
  show ?thesis
    using assms u
    by (simp add: verificar_def verificar_e_instalar_def instalar_def pip_actualizar_def
        subprocess_check_call_def Let_def case_prod_beta
        obtener_version_instalada_mundo obtener_ultima_version_mundo nueva_info_def
        split: if_splits)
qed

lemma manejar_error_resultado:
  "manejar_error v n e g w =
     ((False, \<lparr>libreria = n, estado = ERROR, version_instalada = None, ultima_version = None,
                mensaje = Some (str_excepcion e), timestamp = ahora w\<rparr>),
      persistir v g \<lparr>libreria = n, estado = ERROR, version_instalada = None,
                      ultima_version = None, mensaje = Some (str_excepcion e),
                      timestamp = ahora w\<rparr> w)"
  by (simp add: manejar_error_def nueva_info_def Let_def)

text \<open>The five ways a check can go: every run of \<open>verificar\<close> is one of them.\<close>

lemma verificar_casos:
  obtains
    (ausente) "solo_verificar modo" "\<not> esta_instalada n w"
  | (consulta) "solo_verificar modo \<or> \<not> actualizar modo" "esta_instalada n w"
  | (fallo) argv e env where "\<not> solo_verificar modo"
      "argv = (if esta_instalada n w
               then [ejecutable sis, ''-m'', ''pip'', ''install'', ''--upgrade'', n]
               else [ejecutable sis, ''-m'', ''pip'', ''install'', n])"
      "esta_instalada n w \<longrightarrow> actualizar modo"
      "check_call sis argv (instalado w) = (Some e, env)"
  | (exito) argv env where "\<not> solo_verificar modo"
      "argv = (if esta_instalada n w
               then [ejecutable sis, ''-m'', ''pip'', ''install'', ''--upgrade'', n]
               else [ejecutable sis, ''-m'', ''pip'', ''install'', n])"
      "esta_instalada n w \<longrightarrow> actualizar modo"
      "check_call sis argv (instalado w) = (None, env)"
proof -
  define argv where "argv = (if esta_instalada n w
               then [ejecutable sis, ''-m'', ''pip'', ''install'', ''--upgrade'', n]
               else [ejecutable sis, ''-m'', ''pip'', ''install'', n])"
  obtain r env where c: "check_call sis argv (instalado w) = (r, env)" by fastforce
  show thesis
  proof (cases "solo_verificar modo")
    case True
    then show ?thesis using ausente consulta by blast
  next
    case solo: False
    show ?thesis
    proof (cases "esta_instalada n w \<and> \<not> actualizar modo")
      case True
      then show ?thesis using consulta by blast
    next
      case False
      then have a: "esta_instalada n w \<longrightarrow> actualizar modo" by blast
      show ?thesis
      proof (cases r)
        case None
        with c solo a argv_def show ?thesis using exito by blast
      next
        case (Some e)
        with c solo a argv_def show ?thesis using fallo by blast
      qed
    qed
  qed
qed

lemma verificar_exito_sii:
  "fst (fst (verificar sis v n modo g w)) = (estado (snd (fst (verificar sis v n modo g w))) \<noteq> ERROR)"
proof (cases rule: verificar_casos [where modo = modo and n = n and w = w and sis = sis])
  case ausente
  then show ?thesis by (simp add: verificar_solo_ver_ausente nueva_info_def)
next
  case consulta
  then show ?thesis by (simp add: verificar_consulta Let_def nueva_info_def)
next
  case (fallo argv e env)
  then show ?thesis by (simp add: verificar_pip_fallo [OF fallo] manejar_error_resultado)
next
  case (exito argv env)
  then show ?thesis by (simp add: verificar_pip_exito [OF exito] Let_def nueva_info_def)
qed


section \<open>Facts about the concrete worlds\<close>

lemma wheel_instalada: "esta_instalada ''wheel'' mundo_ejemplo"
  by (simp add: esta_instalada_def ejemplo_defs)


lemma solo_ver_modo: "solo_verificar (CONFIG_MODOS SOLO_VER)"
  by (simp add: CONFIG_MODOS_def)





section \<open>Persistence\<close>



section \<open>View-only mode\<close>




section \<open>Install modes\<close>







lemma pip_pyyaml:
  "fst (check_call sistema_ejemplo
          [ejecutable sistema_ejemplo, ''-m'', ''pip'', ''install'', ''--upgrade'', ''PyYAML'']
          (instalado mundo_ejemplo))
     = Some (CalledProcessError ''Command returned non-zero exit status 1.'')"
  by (simp add: ejemplo_defs)

lemma pip_no_existe:
  "fst (check_call sistema_ejemplo
          [ejecutable sistema_ejemplo, ''-m'', ''pip'', ''install'', ''no-existe'']
          (instalado mundo_ejemplo))
     = Some (CalledProcessError ''Command returned non-zero exit status 1.'')"
  by (simp add: ejemplo_defs)







section \<open>Failures\<close>

lemma main_fallo_validacion:
  assumes "(\<exists>e. validar_nombre_libreria x = Inl e) \<or> (\<exists>e. parsear_bool y = Inl e)
             \<or> (\<exists>e. obtener_modo opcion = Inl e)"
  shows "\<exists>m. main sis x opcion y archivo w = (Inl (RuntimeError m), w)"
  using assms
  by (auto simp: main_def cuerpo_main_def split: sum.splits prod.splits)








section \<open>The index lookup\<close>

lemma verificar_sin_indice:
  "fst (fst (verificar (sis\<lparr>consultar_indice := f\<rparr>) v n modo g w))
     = fst (fst (verificar sis v n modo g w))
   \<and> estado (snd (fst (verificar (sis\<lparr>consultar_indice := f\<rparr>) v n modo g w)))
     = estado (snd (fst (verificar sis v n modo g w)))"
proof (cases rule: verificar_casos [where modo = modo and n = n and w = w and sis = sis])
  case ausente
  then show ?thesis by (simp add: verificar_solo_ver_ausente nueva_info_def)
next
  case consulta
  then show ?thesis by (simp add: verificar_consulta Let_def nueva_info_def)
next
  case (fallo argv e env)
  have a: "argv = (if esta_instalada n w
               then [ejecutable (sis\<lparr>consultar_indice := f\<rparr>), ''-m'', ''pip'', ''install'',
                     ''--upgrade'', n]
               else [ejecutable (sis\<lparr>consultar_indice := f\<rparr>), ''-m'', ''pip'', ''install'', n])"
    using fallo(2) by simp
  have c: "check_call (sis\<lparr>consultar_indice := f\<rparr>) argv (instalado w) = (Some e, env)"
    using fallo(4) by simp
  show ?thesis
    by (simp add: verificar_pip_fallo [OF fallo] verificar_pip_fallo [OF fallo(1) a fallo(3) c]
        manejar_error_resultado)
next
  case (exito argv env)
  have a: "argv = (if esta_instalada n w
               then [ejecutable (sis\<lparr>consultar_indice := f\<rparr>), ''-m'', ''pip'', ''install'',
                     ''--upgrade'', n]
               else [ejecutable (sis\<lparr>consultar_indice := f\<rparr>), ''-m'', ''pip'', ''install'', n])"
    using exito(2) by simp
  have c: "check_call (sis\<lparr>consultar_indice := f\<rparr>) argv (instalado w) = (None, env)"
    using exito(4) by simp
  show ?thesis
    by (simp add: verificar_pip_exito [OF exito] verificar_pip_exito [OF exito(1) a exito(3) c]
        Let_def nueva_info_def)
qed

text \<open>
  C6. For every package name, when the index lookup raises, \<open>obtener_ultima_version\<close>
  returns the sentinel \<open>desconocida\<close> and only the request is added to the world. The
  flag and the state that \<open>verificar\<close> returns do not depend on how the index answers:
  they are the same under any other index, a failing one included. In view-only mode on an
  installed package whose lookup fails, the check succeeds with state \<open>instalada\<close> and
  the sentinel as latest version.
\<close>

theorem indice_fallido_no_propaga:
  "(consultar_indice sis (''https://pypi.org/pypi/'' @ n @ ''/json'') = None \<longrightarrow>
      obtener_ultima_version sis n w =
        (''desconocida'',
         w\<lparr>peticiones := peticiones w @ [''https://pypi.org/pypi/'' @ n @ ''/json'']\<rparr>))
   \<and> fst (fst (verificar (sis\<lparr>consultar_indice := f\<rparr>) v n modo g w))
       = fst (fst (verificar sis v n modo g w))
   \<and> estado (snd (fst (verificar (sis\<lparr>consultar_indice := f\<rparr>) v n modo g w)))
       = estado (snd (fst (verificar sis v n modo g w)))
   \<and> (consultar_indice sis (''https://pypi.org/pypi/'' @ n @ ''/json'') = None
        \<and> solo_verificar modo \<and> esta_instalada n w \<longrightarrow>
          fst (fst (verificar sis v n modo g w))
        \<and> estado (snd (fst (verificar sis v n modo g w))) = INSTALADA
        \<and> ultima_version (snd (fst (verificar sis v n modo g w))) = Some ''desconocida'')"
proof (intro conjI impI)
  show "obtener_ultima_version sis n w =
        (''desconocida'',
         w\<lparr>peticiones := peticiones w @ [''https://pypi.org/pypi/'' @ n @ ''/json'']\<rparr>)"
    if "consultar_indice sis (''https://pypi.org/pypi/'' @ n @ ''/json'') = None"
    using that by (simp add: obtener_ultima_version_def desconocida_def)
  show "fst (fst (verificar (sis\<lparr>consultar_indice := f\<rparr>) v n modo g w))
       = fst (fst (verificar sis v n modo g w))"
    using verificar_sin_indice by blast
  show "estado (snd (fst (verificar (sis\<lparr>consultar_indice := f\<rparr>) v n modo g w)))
       = estado (snd (fst (verificar sis v n modo g w)))"
    using verificar_sin_indice by blast
  assume a: "consultar_indice sis (''https://pypi.org/pypi/'' @ n @ ''/json'') = None
        \<and> solo_verificar modo \<and> esta_instalada n w"
  then have u: "fst (obtener_ultima_version sis n w) = ''desconocida''"
    by (simp add: obtener_ultima_version_def desconocida_def)
  from a have r: "verificar sis v n modo g w =
     (let info = nueva_info w n INSTALADA (Some (fst (obtener_version_instalada sis n w)))
                   (Some (fst (obtener_ultima_version sis n w))) None
      in ((True, info),
          persistir v g info
            (w\<lparr>comandos := comandos w @ [[ejecutable sis, ''-m'', ''pip'', ''show'', n]],
               peticiones := peticiones w @ [''https://pypi.org/pypi/'' @ n @ ''/json'']\<rparr>)))"
    using verificar_consulta [of modo n w sis v g] by blast
  show "fst (fst (verificar sis v n modo g w))"
    by (simp add: r Let_def)
  show "estado (snd (fst (verificar sis v n modo g w))) = INSTALADA"
    by (simp add: r Let_def nueva_info_def)
  show "ultima_version (snd (fst (verificar sis v n modo g w))) = Some ''desconocida''"
    by (simp add: r u Let_def nueva_info_def)
qed

theorem indice_fallido_no_propaga_witness:
  "consultar_indice sistema_sin_indice (''https://pypi.org/pypi/'' @ ''wheel'' @ ''/json'') = None
   \<and> solo_verificar (CONFIG_MODOS SOLO_VER)
   \<and> esta_instalada ''wheel'' mundo_ejemplo
   \<and> fst (obtener_ultima_version sistema_sin_indice ''wheel'' mundo_ejemplo) = ''desconocida''
   \<and> fst (fst (verificar sistema_sin_indice verificador_ejemplo ''wheel''
        (CONFIG_MODOS SOLO_VER) True mundo_ejemplo))
   \<and> estado (snd (fst (verificar sistema_sin_indice verificador_ejemplo ''wheel''
        (CONFIG_MODOS SOLO_VER) True mundo_ejemplo))) = INSTALADA
   \<and> ultima_version (snd (fst (verificar sistema_sin_indice verificador_ejemplo ''wheel''
        (CONFIG_MODOS SOLO_VER) True mundo_ejemplo))) = Some ''desconocida''"
proof -
  have i: "consultar_indice sistema_sin_indice
             (''https://pypi.org/pypi/'' @ ''wheel'' @ ''/json'') = None"
    by (simp add: sistema_sin_indice_def)
  note t = indice_fallido_no_propaga
    [where sis = sistema_sin_indice and n = "''wheel''" and w = mundo_ejemplo
       and v = verificador_ejemplo and modo = "CONFIG_MODOS SOLO_VER" and g = True]
  from t i have "obtener_ultima_version sistema_sin_indice ''wheel'' mundo_ejemplo =
        (''desconocida'',
         mundo_ejemplo\<lparr>peticiones := peticiones mundo_ejemplo
            @ [''https://pypi.org/pypi/'' @ ''wheel'' @ ''/json'']\<rparr>)"
    by blast
  then have "fst (obtener_ultima_version sistema_sin_indice ''wheel'' mundo_ejemplo)
               = ''desconocida''"
    by simp
  moreover from t i solo_ver_modo wheel_instalada
  have "fst (fst (verificar sistema_sin_indice verificador_ejemplo ''wheel''
        (CONFIG_MODOS SOLO_VER) True mundo_ejemplo))
   \<and> estado (snd (fst (verificar sistema_sin_indice verificador_ejemplo ''wheel''
        (CONFIG_MODOS SOLO_VER) True mundo_ejemplo))) = INSTALADA
   \<and> ultima_version (snd (fst (verificar sistema_sin_indice verificador_ejemplo ''wheel''
        (CONFIG_MODOS SOLO_VER) True mundo_ejemplo))) = Some ''desconocida''"
    by blast
  ultimately show ?thesis
    using i solo_ver_modo wheel_instalada by blast
qed


section \<open>Validation\<close>

text \<open>
  C7. For every string given as persist flag, \<open>parsear_bool\<close> returns \<open>True\<close> when
  the string, stripped and lower-cased, is \<open>si\<close>, returns \<open>False\<close> when it is
  \<open>no\<close>, and raises \<open>ValueError\<close> for every other string. When the package name,
  the persist flag or the mode is rejected, \<open>main\<close> raises and the world is the one it
  started in: no file is written, no subprocess is started and no URL is requested.
\<close>

theorem parsear_bool_y_validacion_sin_efectos:
  "parsear_bool (Cadena s) =
     (if lower (strip s) = ''si'' then Inr True
      else if lower (strip s) = ''no'' then Inr False
      else Inl (ValueError (''Valor inv'' @ [CHR 0xE1] @ ''lido: '' @ entre_comillas s
                  @ ''. Debe ser exactamente '' @ entre_comillas ''si'' @ '' o ''
                  @ entre_comillas ''no'' @ ''.'')))
   \<and> ((\<exists>e. validar_nombre_libreria x = Inl e) \<or> (\<exists>e. parsear_bool y = Inl e)
        \<or> (\<exists>e. obtener_modo opcion = Inl e) \<longrightarrow>
      (\<exists>m. main sis x opcion y archivo w = (Inl (RuntimeError m), w)))"
proof (intro conjI impI)
  show "parsear_bool (Cadena s) =
     (if lower (strip s) = ''si'' then Inr True
      else if lower (strip s) = ''no'' then Inr False
      else Inl (ValueError (''Valor inv'' @ [CHR 0xE1] @ ''lido: '' @ entre_comillas s
                  @ ''. Debe ser exactamente '' @ entre_comillas ''si'' @ '' o ''
                  @ entre_comillas ''no'' @ ''.'')))"
    by (simp add: parsear_bool_def Let_def)
  show "\<exists>m. main sis x opcion y archivo w = (Inl (RuntimeError m), w)"
    if "(\<exists>e. validar_nombre_libreria x = Inl e) \<or> (\<exists>e. parsear_bool y = Inl e)
        \<or> (\<exists>e. obtener_modo opcion = Inl e)"
    using that by (rule main_fallo_validacion)
qed

theorem parsear_bool_y_validacion_sin_efectos_witness:
  "parsear_bool (Cadena '' SI '') = Inr True
   \<and> parsear_bool (Cadena ''No'') = Inr False
   \<and> parsear_bool (Cadena ''yes'')
       = Inl (ValueError (''Valor inv'' @ [CHR 0xE1] @ ''lido: '' @ entre_comillas ''yes''
                  @ ''. Debe ser exactamente '' @ entre_comillas ''si'' @ '' o ''
                  @ entre_comillas ''no'' @ ''.''))
   \<and> (\<exists>m. main sistema_ejemplo (Cadena ''wheel'') ''instalar'' (Cadena ''yes'')
             archivo_ejemplo mundo_ejemplo = (Inl (RuntimeError m), mundo_ejemplo))"
proof -
  note t = parsear_bool_y_validacion_sin_efectos
  have l: "lower (strip '' SI '') = ''si''" "lower (strip ''No'') = ''no''"
    "lower (strip ''yes'') = ''yes''"
    by (simp_all add: texto_defs)
  from t [of "'' SI ''"] l have a: "parsear_bool (Cadena '' SI '') = Inr True" by simp
  from t [of "''No''"] l have b: "parsear_bool (Cadena ''No'') = Inr False" by simp
  from t [of "''yes''"] l have c: "parsear_bool (Cadena ''yes'')
       = Inl (ValueError (''Valor inv'' @ [CHR 0xE1] @ ''lido: '' @ entre_comillas ''yes''
                  @ ''. Debe ser exactamente '' @ entre_comillas ''si'' @ '' o ''
                  @ entre_comillas ''no'' @ ''.''))"
    by simp
  then have "\<exists>e. parsear_bool (Cadena ''yes'') = Inl e" by blast
  with t [where y = "Cadena ''yes''" and x = "Cadena ''wheel''" and opcion = "''instalar''"
      and sis = sistema_ejemplo and archivo = archivo_ejemplo and w = mundo_ejemplo]
  have "\<exists>m. main sistema_ejemplo (Cadena ''wheel'') ''instalar'' (Cadena ''yes'')
             archivo_ejemplo mundo_ejemplo = (Inl (RuntimeError m), mundo_ejemplo)"
    by blast
  with a b c show ?thesis by blast
qed

section \<open>Inventory\<close>

lemma nombres_obtener_todas:
  "map (\<lambda>e. lower (nombre e)) (obtener_todas w)
     = map (\<lambda>x. lower (fst x)) (sort_key (\<lambda>x. lower (fst x)) (distribuciones (instalado w)))"
  by (simp add: obtener_todas_def comp_def)

lemma lookup_inventario:
  "DAList.lookup (json_de_inventario d) ''total_librerias'' = Some (JInt (int (total_librerias d)))"
  "DAList.lookup (json_de_inventario d) ''librerias''
     = Some (JArr (map json_de_entrada (librerias d)))"
  by (simp_all add: json_de_inventario_def)

text \<open>
  C8. \<open>exportar_a_json\<close> writes, to the file it is given, an object whose
  \<open>total_librerias\<close> is the length of its \<open>librerias\<close> list; that list has one
  entry for each installed distribution and is sorted by lower-cased name.
\<close>

theorem exportar_a_json_total_y_orden:
  "ruta (fst (exportar_a_json g f w)) = f
   \<and> archivos (snd (exportar_a_json g f w)) f =
        Objeto (json_de_inventario \<lparr>fecha_escaneo = ahora w,
                  total_librerias = length (obtener_todas w), librerias = obtener_todas w\<rparr>)
   \<and> DAList.lookup (leer (fst (exportar_a_json g f w)) (snd (exportar_a_json g f w)))
        ''librerias'' = Some (JArr (map json_de_entrada (obtener_todas w)))
   \<and> DAList.lookup (leer (fst (exportar_a_json g f w)) (snd (exportar_a_json g f w)))
        ''total_librerias'' = Some (JInt (int (length (map json_de_entrada (obtener_todas w)))))
   \<and> length (obtener_todas w) = length (distribuciones (instalado w))
   \<and> sorted (map (\<lambda>e. lower (nombre e)) (obtener_todas w))"
proof (intro conjI)
  show "ruta (fst (exportar_a_json g f w)) = f"
    by (simp add: exportar_a_json_def Let_def)
  show "archivos (snd (exportar_a_json g f w)) f =
        Objeto (json_de_inventario \<lparr>fecha_escaneo = ahora w,
                  total_librerias = length (obtener_todas w), librerias = obtener_todas w\<rparr>)"
    by (simp add: exportar_a_json_def Let_def guardar_def)
  show "DAList.lookup (leer (fst (exportar_a_json g f w)) (snd (exportar_a_json g f w)))
        ''librerias'' = Some (JArr (map json_de_entrada (obtener_todas w)))"
    by (simp add: exportar_a_json_def Let_def leer_guardar lookup_inventario)
  show "DAList.lookup (leer (fst (exportar_a_json g f w)) (snd (exportar_a_json g f w)))
        ''total_librerias'' = Some (JInt (int (length (map json_de_entrada (obtener_todas w)))))"
    by (simp add: exportar_a_json_def Let_def leer_guardar lookup_inventario)
  show "length (obtener_todas w) = length (distribuciones (instalado w))"
    by (simp add: obtener_todas_def)
  show "sorted (map (\<lambda>e. lower (nombre e)) (obtener_todas w))"
    by (simp only: nombres_obtener_todas sorted_sort_key)
qed

theorem exportar_a_json_total_y_orden_witness:
  "map nombre (obtener_todas mundo_ejemplo) = [''attrs'', ''PyYAML'', ''wheel'', ''yt_dlp'']
   \<and> sorted (map (\<lambda>e. lower (nombre e)) (obtener_todas mundo_ejemplo))
   \<and> DAList.lookup (leer (fst (exportar_a_json gestor_ejemplo ''inventario_entorno.json''
          mundo_ejemplo)) (snd (exportar_a_json gestor_ejemplo ''inventario_entorno.json''
          mundo_ejemplo))) ''total_librerias'' = Some (JInt 4)"
proof -
  note t = exportar_a_json_total_y_orden
    [of gestor_ejemplo "''inventario_entorno.json''" mundo_ejemplo]
  have n: "map nombre (obtener_todas mundo_ejemplo) = [''attrs'', ''PyYAML'', ''wheel'', ''yt_dlp'']"
    by (simp add: obtener_todas_def ejemplo_defs texto_defs)
  then have "length (map nombre (obtener_todas mundo_ejemplo)) = 4" by simp
  then have l: "length (obtener_todas mundo_ejemplo) = 4" by simp
  from t have "sorted (map (\<lambda>e. lower (nombre e)) (obtener_todas mundo_ejemplo))" by blast
  moreover from t have "DAList.lookup (leer (fst (exportar_a_json gestor_ejemplo
          ''inventario_entorno.json'' mundo_ejemplo)) (snd (exportar_a_json gestor_ejemplo
          ''inventario_entorno.json'' mundo_ejemplo))) ''total_librerias''
        = Some (JInt (int (length (map json_de_entrada (obtener_todas mundo_ejemplo)))))"
    by blast
  ultimately show ?thesis using n l by simp
qed


section \<open>The success flag\<close>

text \<open>
  C9. For every package name, mode and persist flag, the flag that \<open>verificar\<close>
  returns is false exactly when the record it returns has state \<open>error\<close>: a record of
  state \<open>no_instalada\<close>, \<open>instalada\<close> or \<open>actualizada\<close> comes with the flag true.
\<close>

theorem exito_sii_no_error:
  "(\<not> fst (fst (verificar sis v n modo g w)))
      = (estado (snd (fst (verificar sis v n modo g w))) = ERROR)
   \<and> (estado (snd (fst (verificar sis v n modo g w))) \<in> {NO_INSTALADA, INSTALADA, ACTUALIZADA}
        \<longrightarrow> fst (fst (verificar sis v n modo g w)))"
  using verificar_exito_sii [of sis v n modo g w] by auto

theorem exito_sii_no_error_witness:
  "estado (snd (fst (verificar sistema_ejemplo verificador_ejemplo ''wheel''
      (CONFIG_MODOS SOLO_VER) False mundo_ejemplo))) \<in> {NO_INSTALADA, INSTALADA, ACTUALIZADA}
   \<and> fst (fst (verificar sistema_ejemplo verificador_ejemplo ''wheel''
      (CONFIG_MODOS SOLO_VER) False mundo_ejemplo))"
proof -
  have e: "estado (snd (fst (verificar sistema_ejemplo verificador_ejemplo ''wheel''
      (CONFIG_MODOS SOLO_VER) False mundo_ejemplo))) = INSTALADA"
    by (simp add: verificar_consulta [OF disjI1 [OF solo_ver_modo] wheel_instalada] Let_def
        nueva_info_def)
  with exito_sii_no_error [of sistema_ejemplo verificador_ejemplo "''wheel''"
      "CONFIG_MODOS SOLO_VER" False mundo_ejemplo]
  show ?thesis by simp
qed


section \<open>The installed check\<close>

text \<open>
  C10. \<open>esta_instalada\<close> answers true when the metadata lookup finds the name as given
  or, failing that, the name with every hyphen replaced by an underscore, and false only
  when both lookups fail. In the example environment, whose one distribution of that
  family is \<open>yt_dlp\<close>, the two distinct names \<open>yt-dlp\<close> and \<open>yt_dlp\<close> are both
  reported installed.
\<close>

theorem esta_instalada_guiones:
  "esta_instalada n w =
     ((\<exists>ver. metadatos (instalado w) n = Some ver)
      \<or> (\<exists>ver. metadatos (instalado w) (reemplazar_guiones n) = Some ver))
   \<and> (\<not> esta_instalada n w) =
     (metadatos (instalado w) n = None
      \<and> metadatos (instalado w) (reemplazar_guiones n) = None)
   \<and> reemplazar_guiones ''yt-dlp'' = ''yt_dlp''
   \<and> ''yt-dlp'' \<noteq> ''yt_dlp''
   \<and> metadatos (instalado mundo_ejemplo) ''yt-dlp'' = None
   \<and> filter (\<lambda>d. fst d = ''yt-dlp'' \<or> fst d = ''yt_dlp'') (distribuciones (instalado mundo_ejemplo))
       = [(''yt_dlp'', ''2025.1.15'')]
   \<and> esta_instalada ''yt-dlp'' mundo_ejemplo
   \<and> esta_instalada ''yt_dlp'' mundo_ejemplo"
proof (intro conjI)
  show "esta_instalada n w =
     ((\<exists>ver. metadatos (instalado w) n = Some ver)
      \<or> (\<exists>ver. metadatos (instalado w) (reemplazar_guiones n) = Some ver))"
    by (simp add: esta_instalada_def split: option.splits)
  show "(\<not> esta_instalada n w) =
     (metadatos (instalado w) n = None
      \<and> metadatos (instalado w) (reemplazar_guiones n) = None)"
    by (simp add: esta_instalada_def split: option.splits)
  show "reemplazar_guiones ''yt-dlp'' = ''yt_dlp''"
    by (simp add: reemplazar_guiones_def)
  show "''yt-dlp'' \<noteq> ''yt_dlp''" by simp
  show "metadatos (instalado mundo_ejemplo) ''yt-dlp'' = None"
    by (simp add: ejemplo_defs)
  show "filter (\<lambda>d. fst d = ''yt-dlp'' \<or> fst d = ''yt_dlp'')
          (distribuciones (instalado mundo_ejemplo)) = [(''yt_dlp'', ''2025.1.15'')]"
    by (simp add: ejemplo_defs)
  show "esta_instalada ''yt-dlp'' mundo_ejemplo"
    by (simp add: esta_instalada_def reemplazar_guiones_def ejemplo_defs)
  show "esta_instalada ''yt_dlp'' mundo_ejemplo"
    by (simp add: esta_instalada_def ejemplo_defs)
qed

theorem esta_instalada_guiones_witness:
  "metadatos (instalado mundo_ejemplo) ''no-existe'' = None
   \<and> metadatos (instalado mundo_ejemplo) (reemplazar_guiones ''no-existe'') = None
   \<and> \<not> esta_instalada ''no-existe'' mundo_ejemplo"
proof -
  have a: "metadatos (instalado mundo_ejemplo) ''no-existe'' = None"
    "metadatos (instalado mundo_ejemplo) (reemplazar_guiones ''no-existe'') = None"
    by (simp_all add: ejemplo_defs reemplazar_guiones_def)
  with esta_instalada_guiones [of "''no-existe''" mundo_ejemplo] show ?thesis by blast
qed

end
